theory Spec2Isabelle
  imports Complex_Main "HOL-Library.AList"
begin

section \<open>JavaScript values, exceptions and asynchronous bodies\<close>

text \<open>
  The values that \<^verbatim>\<open>JSON.parse\<close> and the REST wrappers hand to the code. A number is a
  finite IEEE double, hence a rational; \<^verbatim>\<open>JSON.parse\<close> never yields \<^verbatim>\<open>NaN\<close>. An object
  lists its own properties in insertion order.
\<close>

datatype jsval =
    Undefined
  | Null
  | Bool bool
  | Num rat
  | Str string
  | Arr "jsval list"
  | Obj "(string \<times> jsval) list"

datatype exn =
    SyntaxError
  | TypeError
  | Error string

text \<open>
  Reading a property \<^verbatim>\<open>v.k\<close>. On \<^verbatim>\<open>undefined\<close> and \<^verbatim>\<open>null\<close> the read throws a
  \<^verbatim>\<open>TypeError\<close>. The property names this code reads (bucket, file, name, error, code) are
  not built-in properties of booleans, numbers, strings or arrays, so the read yields
  \<^verbatim>\<open>undefined\<close> there.
\<close>

fun get_prop :: "jsval \<Rightarrow> string \<Rightarrow> exn + jsval" where
  "get_prop Undefined k = Inl TypeError"
| "get_prop Null k = Inl TypeError"
| "get_prop (Obj kvs) k = Inr (case map_of kvs k of None \<Rightarrow> Undefined | Some v \<Rightarrow> v)"
| "get_prop v k = Inr Undefined"

text \<open>The condition of \<^verbatim>\<open>if (v)\<close>.\<close>

fun truthy :: "jsval \<Rightarrow> bool" where
  "truthy Undefined = False"
| "truthy Null = False"
| "truthy (Bool b) = b"
| "truthy (Num n) = (n \<noteq> 0)"
| "truthy (Str s) = (s \<noteq> [])"
| "truthy (Arr vs) = True"
| "truthy (Obj kvs) = True"

text \<open>\<^verbatim>\<open>s.startsWith(p)\<close>\<close>

definition startsWith :: "string \<Rightarrow> string \<Rightarrow> bool" where
  "startsWith s p = (take (length p) s = p)"

text \<open>
  A function body that may throw and that acts on a state: the result is \<open>Inl\<close> of the
  exception thrown or \<open>Inr\<close> of the value returned, next to the state it leaves. Every
  \<^verbatim>\<open>await\<close> of the sources waits for its promise before the next statement runs, so an
  asynchronous body is the sequence of its statements and a rejected promise is a throw.
\<close>

type_synonym ('s, 'a) prog = "'s \<Rightarrow> (exn + 'a) \<times> 's"

definition return :: "'a \<Rightarrow> ('s, 'a) prog" where
  "return x = (\<lambda>s. (Inr x, s))"

definition throw :: "exn \<Rightarrow> ('s, 'a) prog" where
  "throw e = (\<lambda>s. (Inl e, s))"

definition lift :: "exn + 'a \<Rightarrow> ('s, 'a) prog" where
  "lift r = (\<lambda>s. (r, s))"

definition bind :: "('s, 'a) prog \<Rightarrow> ('a \<Rightarrow> ('s, 'b) prog) \<Rightarrow> ('s, 'b) prog" where
  "bind m f = (\<lambda>s. case m s of (Inl e, s') \<Rightarrow> (Inl e, s') | (Inr x, s') \<Rightarrow> f x s')"

definition try_catch :: "('s, 'a) prog \<Rightarrow> (exn \<Rightarrow> ('s, 'a) prog) \<Rightarrow> ('s, 'a) prog" where
  "try_catch m h = (\<lambda>s. case m s of (Inl e, s') \<Rightarrow> h e s' | (Inr x, s') \<Rightarrow> (Inr x, s'))"

section \<open>Google Ads uploads: data\<close>

record BatchResult =
  result :: bool
  errors :: "string list"

text \<open>
  The type \<^verbatim>\<open>OfflineUserDataJobConfig\<close> is declared outside the sources; the record has
  the two fields the handler reads or writes.
\<close>

record OfflineUserDataJobConfig =
  type :: string
  list_id :: "string option"

record GoogleAdsOfflineUserDataJobConfig =
  developerToken :: string
  offlineUserDataJobConfig :: OfflineUserDataJobConfig
  recordsPerRequest :: "int option"
  qps :: "int option"
  secretName :: "string option"

text \<open>The object that \<^verbatim>\<open>getSpeedOptions\<close> returns.\<close>

record SpeedOptions =
  recordsPerRequest :: int
  numberOfThreads :: int
  qps :: int

text \<open>
  The type \<^verbatim>\<open>GoogleAdsConversionConfig\<close> is declared outside the sources; the record has
  the three fields the conversion adjustment handler reads.
\<close>

record GoogleAdsConversionConfig =
  customerId :: string
  loginCustomerId :: string
  adsConfig :: jsval

text \<open>What one batch send reports.\<close>

datatype send_result = Sent | SendFailed "string list"

text \<open>
  The calls that leave the process, in the order they are started, and the lines handed to
  the logger.
\<close>

datatype call =
    LoadContent jsval jsval
  | GetOrCreateUserList OfflineUserDataJobConfig
  | CreateOfflineUserDataJob OfflineUserDataJobConfig
  | AddOperationsToOfflineUserDataJob OfflineUserDataJobConfig string "string list"
  | RunOfflineUserDataJob OfflineUserDataJobConfig string
  | UploadConversionAdjustment string string jsval "string list"

datatype logarg = LStr string | LResult BatchResult | LError exn

datatype logline = LogError string logarg | LogInfo string logarg

record world =
  calls :: "call list"
  logs :: "logline list"

text \<open>
  The collaborators that are not in the sources, as test doubles: each answers a call as
  a function of its arguments. \<open>JSON_parse\<close> is \<^verbatim>\<open>JSON.parse\<close>; \<open>loadContent\<close> answers
  \<^verbatim>\<open>new StorageFile(bucket, file).loadContent(0)\<close>; \<open>getOrCreateUserList\<close> and
  \<open>getResultFromError\<close> are methods inherited from \<^verbatim>\<open>GoogleAdsCustomerMatch\<close>;
  \<open>getProperValue\<close> is the library helper of that name; the others answer the methods of
  the injected \<^verbatim>\<open>GoogleAds\<close> instance.
\<close>

record doubles =
  JSON_parse :: "string \<Rightarrow> exn + jsval"
  loadContent :: "jsval \<Rightarrow> jsval \<Rightarrow> exn + string"
  getOrCreateUserList :: "OfflineUserDataJobConfig \<Rightarrow> exn + string"
  createOfflineUserDataJob :: "OfflineUserDataJobConfig \<Rightarrow> exn + string"
  addOperationsToOfflineUserDataJob ::
    "OfflineUserDataJobConfig \<Rightarrow> string \<Rightarrow> string list \<Rightarrow> send_result"
  runOfflineUserDataJob :: "OfflineUserDataJobConfig \<Rightarrow> string \<Rightarrow> exn + unit"
  uploadConversionAdjustment :: "string \<Rightarrow> string \<Rightarrow> jsval \<Rightarrow> string list \<Rightarrow> send_result"
  getResultFromError :: "exn \<Rightarrow> BatchResult"
  getProperValue :: "int option \<Rightarrow> int \<Rightarrow> bool option \<Rightarrow> int"

text \<open>A call is entered in the trace when it starts; then the double answers.\<close>

definition remote :: "call \<Rightarrow> exn + 'a \<Rightarrow> (world, 'a) prog" where
  "remote c r = (\<lambda>w. (r, w\<lparr>calls := calls w @ [c]\<rparr>))"

definition logger :: "logline \<Rightarrow> (world, unit) prog" where
  "logger l = (\<lambda>w. (Inr (), w\<lparr>logs := logs w @ [l]\<rparr>))"

section \<open>The managed send\<close>

text \<open>
  The managed send (the method \<^verbatim>\<open>getManagedSendFn\<close>, inherited from a class outside the
  sources, and the library function it returns) is missing from the sources. Sections 4.2
  to 4.5 of the specification describe it, and this section follows them part by part.
\<close>

definition newline :: char where
  "newline = CHR 0x0A"

fun splitOn :: "char \<Rightarrow> string \<Rightarrow> string list" where
  "splitOn c [] = [[]]"
| "splitOn c (x # xs) =
     (if x = c then [] # splitOn c xs
      else (case splitOn c xs of [] \<Rightarrow> [[x]] | l # ls \<Rightarrow> (x # l) # ls))"

text \<open>
  Modelled from the spec: the splitting of the record stream is missing. Section 4.2 splits
  on line breaks; the empty stream holds no record, any other stream is cut at every line
  break.
\<close>

definition recordsOf :: "string \<Rightarrow> string list" where
  "recordsOf s = (if s = [] then [] else splitOn newline s)"

fun joinRecords :: "string list \<Rightarrow> string" where
  "joinRecords [] = []"
| "joinRecords [l] = l"
| "joinRecords (l # ls) = l @ newline # joinRecords ls"

function batchesOf :: "nat \<Rightarrow> 'a list \<Rightarrow> 'a list list" where
  "batchesOf R xs = (if R = 0 \<or> xs = [] then [] else take R xs # batchesOf R (drop R xs))"
  by pat_completeness auto
termination
  by (relation "measure (\<lambda>(R, xs). length xs)") auto

text \<open>
  Modelled from the spec: the Batch Partitioner is missing. Section 4.2 makes it a pure
  function from the record stream and \<^verbatim>\<open>recordsPerRequest\<close> to the ordered batches, which
  never cuts a record and lets only the last batch be shorter. The value
  \<^verbatim>\<open>recordsPerRequest = 0\<close> breaks the invariant of section 3; the managed send below
  refuses it before it partitions.
\<close>

definition partitioner :: "nat \<Rightarrow> string \<Rightarrow> string list list" where
  "partitioner R stream = batchesOf R (recordsOf stream)"

record BatchOutcome =
  batchIndex :: nat
  success :: bool
  errorMessages :: "string list"

definition outcomeOf :: "nat \<Rightarrow> send_result \<Rightarrow> BatchOutcome" where
  "outcomeOf i r =
     (case r of
        Sent \<Rightarrow> \<lparr>batchIndex = i, success = True, errorMessages = []\<rparr>
      | SendFailed msgs \<Rightarrow> \<lparr>batchIndex = i, success = False, errorMessages = msgs\<rparr>)"

fun describe :: "exn \<Rightarrow> string" where
  "describe SyntaxError = ''SyntaxError''"
| "describe TypeError = ''TypeError''"
| "describe (Error m) = m"

text \<open>
  Modelled from the spec: the Upload Executor is missing. Section 4.4 applies the send
  operation to every batch, whatever the other batches did; with section 4.3 the batches
  start in ascending index order. A send that throws fails its own batch only (section 7).
  Pacing by \<^verbatim>\<open>qps\<close> delays a batch and never drops it, so it leaves no mark here.
\<close>

fun executor ::
  "(string list \<Rightarrow> (world, send_result) prog) \<Rightarrow> nat \<Rightarrow> string list list \<Rightarrow>
   (world, BatchOutcome list) prog" where
  "executor send i [] = return []"
| "executor send i (b # bs) =
     bind (try_catch (send b) (\<lambda>e. return (SendFailed [describe e]))) (\<lambda>r.
     bind (executor send (Suc i) bs) (\<lambda>rest.
     return (outcomeOf i r # rest)))"

text \<open>
  Modelled from the spec: the Result Aggregator is missing. Section 4.5: the overall
  success is the conjunction of the batch successes, the errors are the error messages of
  the batches in index order.
\<close>

definition aggregator :: "BatchOutcome list \<Rightarrow> BatchResult" where
  "aggregator outcomes =
     \<lparr>result = list_all success outcomes, errors = concat (map errorMessages outcomes)\<rparr>"

text \<open>
  Modelled from the spec: the managed send is missing. It partitions, executes and
  aggregates (section 2). A \<^verbatim>\<open>recordsPerRequest\<close> that is not positive breaks the
  invariant of the upload configuration; section 7 makes that an immediate failure.
\<close>

definition managedSend ::
  "SpeedOptions \<Rightarrow> (string list \<Rightarrow> (world, send_result) prog) \<Rightarrow> string \<Rightarrow> string \<Rightarrow>
   (world, BatchResult) prog" where
  "managedSend options send records messageId =
     (if recordsPerRequest options \<le> 0 then throw (Error ''recordsPerRequest must be positive'')
      else bind (executor send 0 (partitioner (nat (recordsPerRequest options)) records))
             (\<lambda>outcomes. return (aggregator outcomes)))"

text \<open>
  Modelled from the spec: the inherited method \<^verbatim>\<open>getManagedSendFn\<close> is missing. By
  section 9 it shares the behaviour of \<^verbatim>\<open>getSpeedOptions\<close>: \<^verbatim>\<open>this.getManagedSendFn(config)\<close>
  asks the receiver's own \<^verbatim>\<open>getSpeedOptions\<close>, the first argument here, and returns the
  managed send for these options.
\<close>

definition getManagedSendFn ::
  "('c \<Rightarrow> SpeedOptions) \<Rightarrow> 'c \<Rightarrow> (string list \<Rightarrow> (world, send_result) prog) \<Rightarrow>
   string \<Rightarrow> string \<Rightarrow> (world, BatchResult) prog" where
  "getManagedSendFn speedOptions config = managedSend (speedOptions config)"

section \<open>The injected Google Ads instance\<close>

text \<open>
  Modelled from the spec: the class \<^verbatim>\<open>GoogleAds\<close> is missing. By section 6 the batch-send
  operation takes a batch and the destination and returns success or a failure with error
  text. The two methods below build that operation for a destination: the operation
  enters the call in the trace and the double answers.
\<close>

definition getAddOperationsToOfflineUserDataJobFn ::
  "doubles \<Rightarrow> OfflineUserDataJobConfig \<Rightarrow> string \<Rightarrow> string list \<Rightarrow> (world, send_result) prog"
  where
  "getAddOperationsToOfflineUserDataJobFn D config jobResourceName =
     (\<lambda>batch. remote (AddOperationsToOfflineUserDataJob config jobResourceName batch)
        (Inr (addOperationsToOfflineUserDataJob D config jobResourceName batch)))"

definition getUploadConversionAdjustmentFn ::
  "doubles \<Rightarrow> string \<Rightarrow> string \<Rightarrow> jsval \<Rightarrow> string list \<Rightarrow> (world, send_result) prog" where
  "getUploadConversionAdjustmentFn D cid lcid ads =
     (\<lambda>batch. remote (UploadConversionAdjustment cid lcid ads batch)
        (Inr (uploadConversionAdjustment D cid lcid ads batch)))"

section \<open>Conversion adjustment upload\<close>

text \<open>
  \<^verbatim>\<open>GoogleAdsConversionAdjustment.sendDataInternal\<close>. The class inherits its
  \<^verbatim>\<open>getSpeedOptions\<close> from a class outside the sources; it is the first argument.
\<close>

definition GoogleAdsConversionAdjustment_sendDataInternal ::
  "(GoogleAdsConversionConfig \<Rightarrow> SpeedOptions) \<Rightarrow> doubles \<Rightarrow> string \<Rightarrow> string \<Rightarrow>
   GoogleAdsConversionConfig \<Rightarrow> (world, BatchResult) prog" where
  "GoogleAdsConversionAdjustment_sendDataInternal inheritedSpeedOptions D records messageId config =
     (let managedSend = getManagedSendFn inheritedSpeedOptions config;
          configuredUpload = getUploadConversionAdjustmentFn D
            (customerId config) (loginCustomerId config) (adsConfig config)
      in managedSend configuredUpload records messageId)"

section \<open>Offline user data job upload\<close>

definition RECORDS_PER_REQUEST :: int where
  "RECORDS_PER_REQUEST = 100000"

definition NUMBER_OF_THREADS :: int where
  "NUMBER_OF_THREADS = 1"

definition QUERIES_PER_SECOND :: int where
  "QUERIES_PER_SECOND = 1"

text \<open>
  \<^verbatim>\<open>GoogleAdsOfflineUserDataJobUpload.getSpeedOptions\<close>. The first call of
  \<^verbatim>\<open>getProperValue\<close> leaves the third argument out (\<open>None\<close>).
\<close>

definition getSpeedOptions ::
  "doubles \<Rightarrow> 'a GoogleAdsOfflineUserDataJobConfig_scheme \<Rightarrow> SpeedOptions" where
  "getSpeedOptions D config =
     (let recordsPerRequest =
            getProperValue D (GoogleAdsOfflineUserDataJobConfig.recordsPerRequest config)
              RECORDS_PER_REQUEST None;
          numberOfThreads = NUMBER_OF_THREADS;
          qps = getProperValue D (GoogleAdsOfflineUserDataJobConfig.qps config)
              QUERIES_PER_SECOND (Some False)
      in \<lparr>recordsPerRequest = recordsPerRequest, numberOfThreads = numberOfThreads, qps = qps\<rparr>)"

text \<open>
  The first \<^verbatim>\<open>try\<close> statement of \<^verbatim>\<open>sendDataInternal\<close> either leaves the function with a
  result (\<open>Return\<close>) or goes on with the records (\<open>Continue\<close>).
\<close>

datatype flow = Return BatchResult | Continue string

definition resolveRecords :: "doubles \<Rightarrow> string \<Rightarrow> (world, flow) prog" where
  "resolveRecords D message =
     try_catch
       (bind (lift (JSON_parse D message)) (\<lambda>parsed.
        bind (lift (get_prop parsed ''bucket'')) (\<lambda>bucket.
        bind (lift (get_prop parsed ''file'')) (\<lambda>file.
          if truthy file then
            bind (remote (LoadContent bucket file) (loadContent D bucket file)) (\<lambda>records.
            return (Continue records))
          else
            bind (logger (LogError ''Could find GCS infomation in message'' (LStr message))) (\<lambda>_.
            return (Return \<lparr>result = False,
              errors = [''Could find GCS infomation in message: '' @ message]\<rparr>))))))
       (\<lambda>error.
          bind (logger (LogError ''Incoming message: '' (LStr message))) (\<lambda>_.
          return (Continue message)))"

text \<open>
  The second \<^verbatim>\<open>try\<close> statement. \<^verbatim>\<open>offlineUserDataJobConfig\<close> and
  \<^verbatim>\<open>config.offlineUserDataJobConfig\<close> name one object, so every later call sees the
  \<^verbatim>\<open>list_id\<close> written into it.
\<close>

definition uploadJob ::
  "doubles \<Rightarrow> string \<Rightarrow> string \<Rightarrow> GoogleAdsOfflineUserDataJobConfig \<Rightarrow> (world, BatchResult) prog"
  where
  "uploadJob D records messageId config =
     try_catch
       (bind (if startsWith (type (offlineUserDataJobConfig config)) ''CUSTOMER_MATCH'' then
                bind (remote (GetOrCreateUserList (offlineUserDataJobConfig config))
                        (getOrCreateUserList D (offlineUserDataJobConfig config))) (\<lambda>listId.
                return ((offlineUserDataJobConfig config)\<lparr>list_id := Some listId\<rparr>))
              else return (offlineUserDataJobConfig config)) (\<lambda>offlineUserDataJobConfig.
        bind (remote (CreateOfflineUserDataJob offlineUserDataJobConfig)
                (createOfflineUserDataJob D offlineUserDataJobConfig)) (\<lambda>jobResourceName.
        bind (logger (LogInfo ''jobResourceName: '' (LStr jobResourceName))) (\<lambda>_.
        bind (getManagedSendFn (getSpeedOptions D) config
                (getAddOperationsToOfflineUserDataJobFn D offlineUserDataJobConfig jobResourceName)
                records messageId) (\<lambda>result.
        bind (logger (LogInfo ''add userdata result: '' (LResult result))) (\<lambda>_.
        bind (remote (RunOfflineUserDataJob offlineUserDataJobConfig jobResourceName)
                (runOfflineUserDataJob D offlineUserDataJobConfig jobResourceName)) (\<lambda>_.
        return result)))))))
       (\<lambda>error.
          bind (logger (LogError ''Error in UserdataOfflineDataService: '' (LError error))) (\<lambda>_.
          return (getResultFromError D error)))"

text \<open>\<^verbatim>\<open>GoogleAdsOfflineUserDataJobUpload.sendDataInternal\<close>\<close>

definition sendDataInternal ::
  "doubles \<Rightarrow> string \<Rightarrow> string \<Rightarrow> GoogleAdsOfflineUserDataJobConfig \<Rightarrow> (world, BatchResult) prog"
  where
  "sendDataInternal D message messageId config =
     bind (resolveRecords D message) (\<lambda>r.
       case r of
         Return failed \<Rightarrow> return failed
       | Continue records \<Rightarrow> uploadJob D records messageId config)"

section \<open>Cloud Functions API handler\<close>

record CloudFunctions =
  apiUrl :: string
  version :: string
  projectId :: string
  locationId :: string

text \<open>The constructor.\<close>

definition CloudFunctions :: "string \<Rightarrow> string \<Rightarrow> CloudFunctions" where
  "CloudFunctions project location =
     \<lparr>apiUrl = ''https://cloudfunctions.googleapis.com'', version = ''v1'',
      projectId = project, locationId = location\<rparr>"

text \<open>
  The base class \<^verbatim>\<open>ApiBase\<close> is outside the sources: \<open>get\<close> and \<open>mutate\<close> answer its
  two methods as functions of their arguments. A method argument that the caller leaves
  out is \<open>None\<close>.
\<close>

record ApiBase =
  get :: "string \<Rightarrow> exn + jsval"
  mutate :: "string \<Rightarrow> jsval \<Rightarrow> string option \<Rightarrow> exn + jsval"

datatype request = Get string | Mutate string jsval "string option"

record script =
  requests :: "request list"
  console :: "(string \<times> jsval) list"

definition super_get :: "ApiBase \<Rightarrow> string \<Rightarrow> (script, jsval) prog" where
  "super_get A path = (\<lambda>s. (get A path, s\<lparr>requests := requests s @ [Get path]\<rparr>))"

definition this_mutate ::
  "ApiBase \<Rightarrow> string \<Rightarrow> jsval \<Rightarrow> string option \<Rightarrow> (script, jsval) prog" where
  "this_mutate A path payload method =
     (\<lambda>s. (mutate A path payload method,
            s\<lparr>requests := requests s @ [Mutate path payload method]\<rparr>))"

definition console_error :: "string \<Rightarrow> jsval \<Rightarrow> (script, unit) prog" where
  "console_error text v = (\<lambda>s. (Inr (), s\<lparr>console := console s @ [(text, v)]\<rparr>))"

definition getFunction :: "CloudFunctions \<Rightarrow> ApiBase \<Rightarrow> string \<Rightarrow> (script, jsval) prog" where
  "getFunction this A functionName =
     super_get A (''projects/'' @ projectId this @ ''/locations/'' @ locationId this
       @ ''/functions/'' @ functionName)"

definition exist :: "CloudFunctions \<Rightarrow> ApiBase \<Rightarrow> string \<Rightarrow> (script, bool) prog" where
  "exist this A functionName =
     bind (getFunction this A functionName) (\<lambda>response.
     bind (lift (get_prop response ''name'')) (\<lambda>name.
     if truthy name then return True
     else
       bind (lift (get_prop response ''error'')) (\<lambda>error.
       bind (lift (get_prop error ''code'')) (\<lambda>code.
       if code = Num 404 then return False
       else
         bind (console_error (''Unknown status of Cloud Functions '' @ functionName) response)
           (\<lambda>_. throw (Error (''Unknown status of Cloud Functions '' @ functionName)))))))"

definition createFunction ::
  "CloudFunctions \<Rightarrow> ApiBase \<Rightarrow> (string \<times> jsval) list \<Rightarrow> (script, jsval) prog" where
  "createFunction this A payload =
     this_mutate A
       (''projects/'' @ projectId this @ ''/locations/'' @ locationId this @ ''/functions'')
       (Obj payload) None"

definition updateFunction ::
  "CloudFunctions \<Rightarrow> ApiBase \<Rightarrow> string \<Rightarrow> (string \<times> jsval) list \<Rightarrow> (script, jsval) prog"
  where
  "updateFunction this A functionsName payload =
     this_mutate A
       (''projects/'' @ projectId this @ ''/locations/'' @ locationId this
          @ ''/functions/'' @ functionsName)
       (Obj payload) (Some ''PATCH'')"

text \<open>
  \<^verbatim>\<open>createOrUpdate\<close> writes into the payload object of its caller, so the payload as the
  call leaves it is returned next to the result, also when the call throws.
\<close>

definition createOrUpdate ::
  "CloudFunctions \<Rightarrow> ApiBase \<Rightarrow> string \<Rightarrow> (string \<times> jsval) list \<Rightarrow> script \<Rightarrow>
   (exn + jsval) \<times> (string \<times> jsval) list \<times> script" where
  "createOrUpdate this A functionsName payload s =
     (case exist this A functionsName s of
        (Inl e, s1) \<Rightarrow> (Inl e, payload, s1)
      | (Inr True, s1) \<Rightarrow>
          (case updateFunction this A functionsName payload s1 of
             (Inl e, s2) \<Rightarrow> (Inl e, payload, s2)
           | (Inr operation, s2) \<Rightarrow> (get_prop operation ''name'', payload, s2))
      | (Inr False, s1) \<Rightarrow>
          (let payload' = AList.update ''name''
                 (Str (''projects/'' @ projectId this @ ''/locations/'' @ locationId this
                    @ ''/functions/'' @ functionsName)) payload
           in case createFunction this A payload' s1 of
                (Inl e, s2) \<Rightarrow> (Inl e, payload', s2)
              | (Inr operation, s2) \<Rightarrow> (get_prop operation ''name'', payload', s2)))"

section \<open>Auxiliary notions for the statements\<close>

text \<open>The outcomes of the batches when the send operation answers \<open>f\<close> and never throws.\<close>

fun outcomesFrom ::
  "(string list \<Rightarrow> send_result) \<Rightarrow> nat \<Rightarrow> string list list \<Rightarrow> BatchOutcome list" where
  "outcomesFrom f i [] = []"
| "outcomesFrom f i (b # bs) = outcomeOf i (f b) # outcomesFrom f (Suc i) bs"

text \<open>Whether the text \<open>p\<close> occurs somewhere in \<open>s\<close>.\<close>

fun occursIn :: "string \<Rightarrow> string \<Rightarrow> bool" where
  "occursIn p [] = (p = [])"
| "occursIn p (x # xs) = (startsWith (x # xs) p \<or> occursIn p xs)"

text \<open>
  The second \<^verbatim>\<open>try\<close> body read off the answers of the doubles: how the body ends and
  which calls it starts. \<open>jobOutcome\<close> covers the statements from the job creation on, for
  the job configuration \<open>c\<close> that the list step leaves.
\<close>

definition jobOutcome ::
  "doubles \<Rightarrow> OfflineUserDataJobConfig \<Rightarrow> string \<Rightarrow> GoogleAdsOfflineUserDataJobConfig \<Rightarrow>
   (exn + BatchResult) \<times> call list" where
  "jobOutcome D c records config =
     (case createOfflineUserDataJob D c of
        Inl e \<Rightarrow> (Inl e, [CreateOfflineUserDataJob c])
      | Inr job \<Rightarrow>
          if recordsPerRequest (getSpeedOptions D config) \<le> 0
          then (Inl (Error ''recordsPerRequest must be positive''), [CreateOfflineUserDataJob c])
          else
            (case runOfflineUserDataJob D c job of
               Inl e \<Rightarrow> Inl e
             | Inr _ \<Rightarrow>
                 Inr (aggregator (outcomesFrom (addOperationsToOfflineUserDataJob D c job) 0
                   (partitioner (nat (recordsPerRequest (getSpeedOptions D config))) records))),
             CreateOfflineUserDataJob c #
             map (AddOperationsToOfflineUserDataJob c job)
               (partitioner (nat (recordsPerRequest (getSpeedOptions D config))) records)
             @ [RunOfflineUserDataJob c job]))"

definition tryOutcome ::
  "doubles \<Rightarrow> string \<Rightarrow> GoogleAdsOfflineUserDataJobConfig \<Rightarrow> (exn + BatchResult) \<times> call list"
  where
  "tryOutcome D records config =
     (if startsWith (type (offlineUserDataJobConfig config)) ''CUSTOMER_MATCH'' then
        (case getOrCreateUserList D (offlineUserDataJobConfig config) of
           Inl e \<Rightarrow> (Inl e, [GetOrCreateUserList (offlineUserDataJobConfig config)])
         | Inr listId \<Rightarrow>
             (fst (jobOutcome D ((offlineUserDataJobConfig config)\<lparr>list_id := Some listId\<rparr>)
                     records config),
              GetOrCreateUserList (offlineUserDataJobConfig config) #
              snd (jobOutcome D ((offlineUserDataJobConfig config)\<lparr>list_id := Some listId\<rparr>)
                     records config)))
      else jobOutcome D (offlineUserDataJobConfig config) records config)"

text \<open>
  A get-function response carries a name when its \<^verbatim>\<open>name\<close> property holds; it carries
  an error with code 404 when \<^verbatim>\<open>error.code\<close> is the number 404.
\<close>

definition carriesName :: "jsval \<Rightarrow> bool" where
  "carriesName response =
     (case get_prop response ''name'' of Inl _ \<Rightarrow> False | Inr v \<Rightarrow> truthy v)"

definition carriesError404 :: "jsval \<Rightarrow> bool" where
  "carriesError404 response =
     (case get_prop response ''error'' of
        Inl _ \<Rightarrow> False
      | Inr err \<Rightarrow> (case get_prop err ''code'' of Inl _ \<Rightarrow> False | Inr c \<Rightarrow> c = Num 404))"

section \<open>Test doubles\<close>

definition fresh :: world where
  "fresh = \<lparr>calls = [], logs = []\<rparr>"

text \<open>
  Modelled from the spec: \<^verbatim>\<open>getResultFromError\<close> is inherited from a class outside the
  sources. Section 4.6 has it turn an exception into a failed BatchResult whose errors
  array contains a single descriptive message.
\<close>

definition resultFromError :: "exn \<Rightarrow> BatchResult" where
  "resultFromError e = \<lparr>result = False, errors = [describe e]\<rparr>"

text \<open>
  A stand-in for the library helper \<^verbatim>\<open>getProperValue\<close>: a value that is missing or not
  positive gives way to the default, and so does a value above the default unless the
  caller passes \<^verbatim>\<open>false\<close> as third argument.
\<close>

definition properValue :: "int option \<Rightarrow> int \<Rightarrow> bool option \<Rightarrow> int" where
  "properValue v d capped =
     (case v of
        None \<Rightarrow> d
      | Some n \<Rightarrow> if n \<le> 0 then d else if capped \<noteq> Some False \<and> d < n then d else n)"

definition referenceMessage :: string where
  \<open>referenceMessage = ''{"bucket":"b","file":"f"}''\<close>

text \<open>
  Doubles for a run in which the stored object is missing, one batch is refused and
  every other call succeeds.
\<close>

definition testDoubles :: doubles where
  "testDoubles =
     \<lparr>JSON_parse = (\<lambda>s. if s = ''{}'' then Inr (Obj [])
          else if s = referenceMessage then Inr (Obj [(''bucket'', Str ''b''), (''file'', Str ''f'')])
          else Inl SyntaxError),
      loadContent = (\<lambda>bucket file. Inl (Error ''No such object'')),
      getOrCreateUserList = (\<lambda>c. Inr ''list-1''),
      createOfflineUserDataJob = (\<lambda>c. Inr ''job-1''),
      addOperationsToOfflineUserDataJob =
        (\<lambda>c j batch. if batch = [''bad''] then SendFailed [''refused''] else Sent),
      runOfflineUserDataJob = (\<lambda>c j. Inr ()),
      uploadConversionAdjustment = (\<lambda>cid lcid ads batch. Sent),
      getResultFromError = resultFromError,
      getProperValue = properValue\<rparr>"

definition customerMatchConfig :: GoogleAdsOfflineUserDataJobConfig where
  "customerMatchConfig =
     \<lparr>developerToken = ''token'',
      offlineUserDataJobConfig = \<lparr>type = ''CUSTOMER_MATCH_USER_LIST'', list_id = None\<rparr>,
      recordsPerRequest = Some 1, qps = None, secretName = None\<rparr>"

text \<open>A configuration for a job type that needs no list, with no speed value of its own.\<close>

definition storeSalesConfig :: GoogleAdsOfflineUserDataJobConfig where
  "storeSalesConfig =
     \<lparr>developerToken = ''token'',
      offlineUserDataJobConfig = \<lparr>type = ''STORE_SALES_UPLOAD_FIRST_PARTY'', list_id = None\<rparr>,
      recordsPerRequest = None, qps = None, secretName = None\<rparr>"

text \<open>A configuration whose speed values are not proper ones.\<close>

definition improperConfig :: GoogleAdsOfflineUserDataJobConfig where
  "improperConfig =
     \<lparr>developerToken = ''token'',
      offlineUserDataJobConfig = \<lparr>type = ''STORE_SALES_UPLOAD_FIRST_PARTY'', list_id = None\<rparr>,
      recordsPerRequest = Some (- 5), qps = None, secretName = None\<rparr>"

definition threeRecords :: string where
  "threeRecords = ''u1'' @ [newline] @ ''bad'' @ [newline] @ ''u3''"

definition testApi :: ApiBase where
  "testApi =
     \<lparr>get = (\<lambda>path.
          if path = ''projects/p/locations/l/functions/f''
          then Inr (Obj [(''name'', Str ''projects/p/locations/l/functions/f'')])
          else if path = ''projects/p/locations/l/functions/g''
          then Inr (Obj [(''error'', Obj [(''code'', Num 404)])])
          else Inr (Obj [(''error'', Obj [(''code'', Num 500)])])),
      mutate = (\<lambda>path payload method. Inr (Obj [(''name'', Str ''operations/op-1'')]))\<rparr>"

definition newScript :: script where
  "newScript = \<lparr>requests = [], console = []\<rparr>"

section \<open>The batch partitioner\<close>

declare batchesOf.simps [simp del]

lemmas prog_defs = return_def throw_def lift_def bind_def try_catch_def remote_def logger_def

lemma batchesOf_Nil: "batchesOf R [] = []"
  by (simp add: batchesOf.simps)

lemma batchesOf_zero: "batchesOf 0 xs = []"
  by (simp add: batchesOf.simps)

lemma batchesOf_step:
  "0 < R \<Longrightarrow> xs \<noteq> [] \<Longrightarrow> batchesOf R xs = take R xs # batchesOf R (drop R xs)"
  by (subst batchesOf.simps) simp

lemma concat_batchesOf: "0 < R \<Longrightarrow> concat (batchesOf R xs) = xs"
proof (induction R xs rule: batchesOf.induct)
  case (1 R xs)
  show ?case
  proof (cases "xs = []")
    case True
    then show ?thesis by (simp add: batchesOf_Nil)
  next
    case False
    with 1 show ?thesis by (simp add: batchesOf_step)
  qed
qed

lemma batchesOf_sizes: "b \<in> set (batchesOf R xs) \<Longrightarrow> length b \<le> R \<and> b \<noteq> []"
proof (induction R xs rule: batchesOf.induct)
  case (1 R xs)
  show ?case
  proof (cases "R = 0 \<or> xs = []")
    case True
    with 1(2) show ?thesis by (auto simp: batchesOf_Nil batchesOf_zero)
  next
    case False
    with 1 show ?thesis by (auto simp: batchesOf_step)
  qed
qed

lemma length_batchesOf: "0 < R \<Longrightarrow> length (batchesOf R xs) = (length xs + R - 1) div R"
proof (induction R xs rule: batchesOf.induct)
  case (1 R xs)
  show ?case
  proof (cases "xs = []")
    case True
    with 1(2) show ?thesis by (simp add: batchesOf_Nil)
  next
    case False
    show ?thesis
    proof (cases "length xs \<le> R")
      case True
      with False 1(2) have "(length xs + R - 1) div R = 1"
        by (cases xs) (auto simp: div_eq_dividend_iff  le_div_geq)
      with True False 1(2) show ?thesis by (simp add: batchesOf_step batchesOf_Nil)
    next
      case gt: False
      then have "length xs + R - 1 = (length xs - R + R - 1) + R" by simp
      then have "(length xs + R - 1) div R = Suc ((length xs - R + R - 1) div R)"
        using 1(2) by (metis div_add_self2 less_numeral_extra(3) Suc_eq_plus1)
      with False 1 show ?thesis by (simp add: batchesOf_step)
    qed
  qed
qed

lemma ceiling_div:
  assumes R: "0 < (R::nat)"
  shows "\<lceil>real N / real R\<rceil> = int ((N + R - 1) div R)"
proof -
  define q where "q = (N + R - 1) div R"
  have split: "N + R - 1 = q * R + (N + R - 1) mod R"
    by (simp add: q_def)
  have rem: "(N + R - 1) mod R < R"
    using R by simp
  have lower: "N \<le> q * R"
    using split rem R by linarith
  have upper: "q * R < N + R"
    using split R by linarith
  have "real N \<le> real (q * R)"
    using lower by (simp only: of_nat_le_iff)
  then have le: "real N / real R \<le> real q"
    using R by (simp add: pos_divide_le_eq)
  have "real (q * R) < real (N + R)"
    using upper by (simp only: of_nat_less_iff)
  then have "(real q - 1) * real R < real N"
    by (simp add: algebra_simps)
  then have gt: "real q - 1 < real N / real R"
    using R by (simp add: pos_less_divide_eq)
  have "\<lceil>real N / real R\<rceil> = int q"
    using le gt by (intro ceiling_unique) simp_all
  then show ?thesis by (simp add: q_def)
qed

lemma splitOn_ne: "splitOn c s \<noteq> []"
  by (induction s) (auto split: list.splits)

lemma splitOn_free: "r \<in> set (splitOn c s) \<Longrightarrow> c \<notin> set r"
  by (induction s arbitrary: r) (auto split: list.splits if_splits)

lemma joinRecords_Cons: "ls \<noteq> [] \<Longrightarrow> joinRecords (l # ls) = l @ newline # joinRecords ls"
  by (cases ls) auto

lemma joinRecords_push: "joinRecords ((a # l) # ls) = a # joinRecords (l # ls)"
  by (cases ls) auto

lemma join_splitOn: "joinRecords (splitOn newline s) = s"
proof (induction s)
  case Nil
  show ?case by simp
next
  case (Cons x s)
  show ?case
  proof (cases "x = newline")
    case True
    with Cons show ?thesis by (simp add: joinRecords_Cons splitOn_ne)
  next
    case False
    obtain l ls where "splitOn newline s = l # ls"
      using splitOn_ne[of newline s] by (cases "splitOn newline s") auto
    with False Cons show ?thesis by (simp add: joinRecords_push)
  qed
qed

lemma join_recordsOf: "joinRecords (recordsOf s) = s"
  by (simp add: recordsOf_def join_splitOn)


text \<open>
  C8: for a stream of \<open>N\<close> records and \<open>R > 0\<close> the partitioner yields \<open>ceil(N/R)\<close>
  batches, each of at most \<open>R\<close> records; no record of a batch holds a line break, so none
  was cut; the batches in order give back the records, and the records joined by line
  breaks give back the stream.
\<close>

theorem partitioner_batches:
  assumes "0 < R"
  shows "int (length (partitioner R stream)) = \<lceil>real (length (recordsOf stream)) / real R\<rceil>
    \<and> (\<forall>b \<in> set (partitioner R stream). length b \<le> R \<and> (\<forall>r \<in> set b. newline \<notin> set r))
    \<and> concat (partitioner R stream) = recordsOf stream
    \<and> joinRecords (concat (partitioner R stream)) = stream"
proof -
  have count: "int (length (partitioner R stream)) = \<lceil>real (length (recordsOf stream)) / real R\<rceil>"
    using assms by (simp add: partitioner_def length_batchesOf ceiling_div)
  have whole: "concat (partitioner R stream) = recordsOf stream"
    using assms by (simp add: partitioner_def concat_batchesOf)
  have sizes: "\<forall>b \<in> set (partitioner R stream). length b \<le> R"
    using batchesOf_sizes by (auto simp: partitioner_def)
  have "\<forall>r \<in> set (recordsOf stream). newline \<notin> set r"
    using splitOn_free by (auto simp: recordsOf_def)
  then have unsplit: "\<forall>b \<in> set (partitioner R stream). \<forall>r \<in> set b. newline \<notin> set r"
    using whole by (metis UN_I set_concat)
  show ?thesis
    using count whole sizes unsplit by (simp add: join_recordsOf)
qed

lemma recordsOf_three: "recordsOf threeRecords = [''u1'', ''bad'', ''u3'']"
  by (simp add: recordsOf_def threeRecords_def newline_def)

lemma partitioner_three: "partitioner 1 threeRecords = [[''u1''], [''bad''], [''u3'']]"
  by (simp add: partitioner_def recordsOf_three batchesOf_step batchesOf_Nil)

theorem partitioner_batches_witness:
  "(0::nat) < 2 \<and> partitioner 2 threeRecords = [[''u1'', ''bad''], [''u3'']]
   \<and> int (length (partitioner 2 threeRecords)) = \<lceil>real (length (recordsOf threeRecords)) / real (2::nat)\<rceil>
   \<and> concat (partitioner 2 threeRecords) = recordsOf threeRecords
   \<and> joinRecords (concat (partitioner 2 threeRecords)) = threeRecords"
proof -
  have two: "(0::nat) < 2" by simp
  note batches = partitioner_batches [OF two, of threeRecords]
  have split: "partitioner 2 threeRecords = [[''u1'', ''bad''], [''u3'']]"
    by (simp add: partitioner_def recordsOf_three batchesOf_step batchesOf_Nil)
  from batches have count: "int (length (partitioner 2 threeRecords)) =
      \<lceil>real (length (recordsOf threeRecords)) / real (2::nat)\<rceil>"
    by (rule conjunct1)
  from batches have whole: "concat (partitioner 2 threeRecords) = recordsOf threeRecords"
    by blast
  from batches have joined: "joinRecords (concat (partitioner 2 threeRecords)) = threeRecords"
    by blast
  show ?thesis
    using two split count whole joined by blast
qed

section \<open>The offline user data job upload\<close>

lemma executor_remote:
  "executor (\<lambda>b. remote (ev b) (Inr (f b))) i bs w =
     (Inr (outcomesFrom f i bs), w\<lparr>calls := calls w @ map ev bs\<rparr>)"
  by (induction bs arbitrary: i w) (simp_all add: prog_defs)

lemma managedSend_remote:
  "managedSend options (\<lambda>b. remote (ev b) (Inr (f b))) records messageId w =
     (if recordsPerRequest options \<le> 0
      then (Inl (Error ''recordsPerRequest must be positive''), w)
      else (Inr (aggregator (outcomesFrom f 0 (partitioner (nat (recordsPerRequest options)) records))),
            w\<lparr>calls := calls w @ map ev (partitioner (nat (recordsPerRequest options)) records)\<rparr>))"
  by (simp add: managedSend_def executor_remote bind_def return_def throw_def)

lemma managedSend_addOperations:
  "managedSend options (getAddOperationsToOfflineUserDataJobFn D c job) records messageId w =
     (if recordsPerRequest options \<le> 0
      then (Inl (Error ''recordsPerRequest must be positive''), w)
      else (Inr (aggregator (outcomesFrom (addOperationsToOfflineUserDataJob D c job) 0
                   (partitioner (nat (recordsPerRequest options)) records))),
            w\<lparr>calls := calls w @ map (AddOperationsToOfflineUserDataJob c job)
                   (partitioner (nat (recordsPerRequest options)) records)\<rparr>))"
  by (simp add: getAddOperationsToOfflineUserDataJobFn_def managedSend_remote)

lemma resolveRecords_no_file:
  assumes "JSON_parse D message = Inr (Obj kvs)" and "map_of kvs ''file'' = None"
  shows "resolveRecords D message w =
    (Inr (Return \<lparr>result = False, errors = [''Could find GCS infomation in message: '' @ message]\<rparr>),
     w\<lparr>logs := logs w @ [LogError ''Could find GCS infomation in message'' (LStr message)]\<rparr>)"
  using assms by (simp add: resolveRecords_def prog_defs)

text \<open>
  C2: when the message parses as a JSON object that has no \<^verbatim>\<open>file\<close> property, the upload
  starts no call at all (no fetch, no job creation, no batch send) and returns at once a
  result with \<^verbatim>\<open>result = false\<close> and one error message, which quotes the message.
\<close>

theorem keyless_reference_fails:
  assumes "JSON_parse D message = Inr (Obj kvs)" and "map_of kvs ''file'' = None"
  shows "fst (sendDataInternal D message messageId config w) =
      Inr \<lparr>result = False, errors = [''Could find GCS infomation in message: '' @ message]\<rparr>
    \<and> calls (snd (sendDataInternal D message messageId config w)) = calls w"
  using assms by (simp add: sendDataInternal_def resolveRecords_no_file bind_def return_def)

lemma uploadJob_result: "\<exists>r. fst (uploadJob D records mid config w) = Inr r"
  by (simp add: uploadJob_def prog_defs split: sum.splits prod.splits)

lemma resolveRecords_result: "\<exists>r. fst (resolveRecords D message w) = Inr r"
  by (simp add: resolveRecords_def prog_defs split: sum.splits prod.splits)

lemma sendDataInternal_result: "\<exists>r. fst (sendDataInternal D message mid config w) = Inr r"
  using resolveRecords_result[of D message w] uploadJob_result
  by (auto simp add: sendDataInternal_def bind_def return_def split: sum.splits prod.splits flow.splits)



lemmas upload_defs =
  uploadJob_def tryOutcome_def jobOutcome_def getManagedSendFn_def managedSend_addOperations
  prog_defs

lemma uploadJob_outcome_from:
  assumes "startsWith (type (offlineUserDataJobConfig config)) ''CUSTOMER_MATCH'' \<longrightarrow>
      getOrCreateUserList D (offlineUserDataJobConfig config) = Inr listId
      \<and> c = (offlineUserDataJobConfig config)\<lparr>list_id := Some listId\<rparr>"
    and "\<not> startsWith (type (offlineUserDataJobConfig config)) ''CUSTOMER_MATCH'' \<longrightarrow>
      c = offlineUserDataJobConfig config"
  shows "fst (uploadJob D records messageId config w) =
     Inr (case fst (tryOutcome D records config) of
            Inl e \<Rightarrow> getResultFromError D e | Inr r \<Rightarrow> r)
   \<and> calls (snd (uploadJob D records messageId config w)) =
     calls w @ snd (tryOutcome D records config)"
proof (cases "createOfflineUserDataJob D c")
  case (Inl e)
  with assms show ?thesis
    by (cases "startsWith (type (offlineUserDataJobConfig config)) ''CUSTOMER_MATCH''")
      (simp_all add: upload_defs)
next
  case created: (Inr job)
  show ?thesis
  proof (cases "recordsPerRequest (getSpeedOptions D config) \<le> 0")
    case True
    with assms created show ?thesis
      by (cases "startsWith (type (offlineUserDataJobConfig config)) ''CUSTOMER_MATCH''")
        (simp_all add: upload_defs)
  next
    case False
    show ?thesis
    proof (cases "runOfflineUserDataJob D c job")
      case (Inl e)
      with assms created False show ?thesis
        by (cases "startsWith (type (offlineUserDataJobConfig config)) ''CUSTOMER_MATCH''")
          (simp_all add: upload_defs)
    next
      case (Inr u)
      with assms created False show ?thesis
        by (cases "startsWith (type (offlineUserDataJobConfig config)) ''CUSTOMER_MATCH''")
          (simp_all add: upload_defs)
    qed
  qed
qed

lemma uploadJob_outcome:
  "fst (uploadJob D records messageId config w) =
     Inr (case fst (tryOutcome D records config) of
            Inl e \<Rightarrow> getResultFromError D e | Inr r \<Rightarrow> r)
   \<and> calls (snd (uploadJob D records messageId config w)) =
     calls w @ snd (tryOutcome D records config)"
proof (cases "startsWith (type (offlineUserDataJobConfig config)) ''CUSTOMER_MATCH''")
  case False
  then show ?thesis
    by (intro uploadJob_outcome_from[where c = "offlineUserDataJobConfig config"]) simp_all
next
  case True
  show ?thesis
  proof (cases "getOrCreateUserList D (offlineUserDataJobConfig config)")
    case (Inl e)
    with True show ?thesis by (simp add: upload_defs)
  next
    case (Inr listId)
    with True show ?thesis
      by (intro uploadJob_outcome_from[where listId = listId
            and c = "(offlineUserDataJobConfig config)\<lparr>list_id := Some listId\<rparr>"]) simp_all
  qed
qed

lemma sendDataInternal_continue:
  assumes "resolveRecords D message w = (Inr (Continue records), w1)"
  shows "sendDataInternal D message messageId config w = uploadJob D records messageId config w1"
  using assms by (simp add: sendDataInternal_def bind_def)

text \<open>
  C3: for a job type that starts with \<^verbatim>\<open>CUSTOMER_MATCH\<close>, once the record source has given
  the records, the calls of the upload are: the list creation, once and first; then, when it
  answers, the job creation with the list identifier written into the job configuration;
  then, when that answers, one send per batch and after them the run-job command, once,
  whatever the sends report. When the list creation or the job creation throws, the trace
  ends there and holds no run-job command.
\<close>

theorem job_lifecycle_order:
  assumes "startsWith (type (offlineUserDataJobConfig config)) ''CUSTOMER_MATCH''"
    and "resolveRecords D message w = (Inr (Continue records), w1)"
  shows "calls (snd (sendDataInternal D message messageId config w)) = calls w1 @
     GetOrCreateUserList (offlineUserDataJobConfig config) #
     (case getOrCreateUserList D (offlineUserDataJobConfig config) of
        Inl e \<Rightarrow> []
      | Inr listId \<Rightarrow>
          CreateOfflineUserDataJob ((offlineUserDataJobConfig config)\<lparr>list_id := Some listId\<rparr>) #
          (case createOfflineUserDataJob D
                  ((offlineUserDataJobConfig config)\<lparr>list_id := Some listId\<rparr>) of
             Inl e \<Rightarrow> []
           | Inr job \<Rightarrow>
               if recordsPerRequest (getSpeedOptions D config) \<le> 0 then []
               else
                 map (AddOperationsToOfflineUserDataJob
                        ((offlineUserDataJobConfig config)\<lparr>list_id := Some listId\<rparr>) job)
                   (partitioner (nat (recordsPerRequest (getSpeedOptions D config))) records)
                 @ [RunOfflineUserDataJob
                      ((offlineUserDataJobConfig config)\<lparr>list_id := Some listId\<rparr>) job]))"
proof -
  have "calls (snd (sendDataInternal D message messageId config w)) =
      calls w1 @ snd (tryOutcome D records config)"
    using assms(2) uploadJob_outcome by (simp add: sendDataInternal_continue)
  then show ?thesis
    using assms(1) by (simp add: tryOutcome_def jobOutcome_def split: sum.splits)
qed

lemma parse_threeRecords: "JSON_parse testDoubles threeRecords = Inl SyntaxError"
  by (simp add: testDoubles_def threeRecords_def referenceMessage_def)

lemma resolve_threeRecords:
  "resolveRecords testDoubles threeRecords fresh =
     (Inr (Continue threeRecords),
      \<lparr>calls = [], logs = [LogError ''Incoming message: '' (LStr threeRecords)]\<rparr>)"
  by (simp add: resolveRecords_def parse_threeRecords prog_defs fresh_def)

lemma speed_customerMatchConfig:
  "recordsPerRequest (getSpeedOptions testDoubles customerMatchConfig) = 1"
  by (simp add: getSpeedOptions_def testDoubles_def customerMatchConfig_def properValue_def
      RECORDS_PER_REQUEST_def)

lemma testDoubles_answers:
  "getOrCreateUserList testDoubles c = Inr ''list-1''"
  "createOfflineUserDataJob testDoubles c = Inr ''job-1''"
  "runOfflineUserDataJob testDoubles c j = Inr ()"
  "addOperationsToOfflineUserDataJob testDoubles c j batch =
     (if batch = [''bad''] then SendFailed [''refused''] else Sent)"
  "getResultFromError testDoubles = resultFromError"
  "loadContent testDoubles bucket file = Inl (Error ''No such object'')"
  by (simp_all add: testDoubles_def)

lemma partitioner_one_three: "partitioner (Suc 0) threeRecords = [[''u1''], [''bad''], [''u3'']]"
  using partitioner_three by simp

lemma customerMatchConfig_job:
  "offlineUserDataJobConfig customerMatchConfig =
     \<lparr>type = ''CUSTOMER_MATCH_USER_LIST'', list_id = None\<rparr>"
  by (simp add: customerMatchConfig_def)

theorem job_lifecycle_order_witness:
  "startsWith (type (offlineUserDataJobConfig customerMatchConfig)) ''CUSTOMER_MATCH''
   \<and> fst (resolveRecords testDoubles threeRecords fresh) = Inr (Continue threeRecords)
   \<and> calls (snd (sendDataInternal testDoubles threeRecords ''m1'' customerMatchConfig fresh)) =
      [GetOrCreateUserList \<lparr>type = ''CUSTOMER_MATCH_USER_LIST'', list_id = None\<rparr>,
       CreateOfflineUserDataJob \<lparr>type = ''CUSTOMER_MATCH_USER_LIST'', list_id = Some ''list-1''\<rparr>,
       AddOperationsToOfflineUserDataJob
         \<lparr>type = ''CUSTOMER_MATCH_USER_LIST'', list_id = Some ''list-1''\<rparr> ''job-1'' [''u1''],
       AddOperationsToOfflineUserDataJob
         \<lparr>type = ''CUSTOMER_MATCH_USER_LIST'', list_id = Some ''list-1''\<rparr> ''job-1'' [''bad''],
       AddOperationsToOfflineUserDataJob
         \<lparr>type = ''CUSTOMER_MATCH_USER_LIST'', list_id = Some ''list-1''\<rparr> ''job-1'' [''u3''],
       RunOfflineUserDataJob
         \<lparr>type = ''CUSTOMER_MATCH_USER_LIST'', list_id = Some ''list-1''\<rparr> ''job-1'']
   \<and> fst (sendDataInternal testDoubles threeRecords ''m1'' customerMatchConfig fresh) =
      Inr \<lparr>result = False, errors = [''refused'']\<rparr>"
proof -
  have needs: "startsWith (type (offlineUserDataJobConfig customerMatchConfig)) ''CUSTOMER_MATCH''"
    by (simp add: startsWith_def customerMatchConfig_def)
  have order: "calls (snd (sendDataInternal testDoubles threeRecords ''m1'' customerMatchConfig fresh)) =
      [GetOrCreateUserList \<lparr>type = ''CUSTOMER_MATCH_USER_LIST'', list_id = None\<rparr>,
       CreateOfflineUserDataJob \<lparr>type = ''CUSTOMER_MATCH_USER_LIST'', list_id = Some ''list-1''\<rparr>,
       AddOperationsToOfflineUserDataJob
         \<lparr>type = ''CUSTOMER_MATCH_USER_LIST'', list_id = Some ''list-1''\<rparr> ''job-1'' [''u1''],
       AddOperationsToOfflineUserDataJob
         \<lparr>type = ''CUSTOMER_MATCH_USER_LIST'', list_id = Some ''list-1''\<rparr> ''job-1'' [''bad''],
       AddOperationsToOfflineUserDataJob
         \<lparr>type = ''CUSTOMER_MATCH_USER_LIST'', list_id = Some ''list-1''\<rparr> ''job-1'' [''u3''],
       RunOfflineUserDataJob
         \<lparr>type = ''CUSTOMER_MATCH_USER_LIST'', list_id = Some ''list-1''\<rparr> ''job-1'']"
    using job_lifecycle_order [OF needs resolve_threeRecords, of "''m1''"]
    by (simp add: speed_customerMatchConfig partitioner_one_three testDoubles_answers
        customerMatchConfig_job)
  have outcome: "fst (sendDataInternal testDoubles threeRecords ''m1'' customerMatchConfig fresh) =
      Inr \<lparr>result = False, errors = [''refused'']\<rparr>"
    using uploadJob_outcome [of testDoubles threeRecords "''m1''" customerMatchConfig]
    by (simp add: sendDataInternal_continue [OF resolve_threeRecords] tryOutcome_def
        jobOutcome_def needs speed_customerMatchConfig partitioner_one_three testDoubles_answers
        customerMatchConfig_job aggregator_def outcomeOf_def)
  show ?thesis
    using needs order outcome by (simp add: resolve_threeRecords)
qed

lemma parse_empty_object: "JSON_parse testDoubles ''{}'' = Inr (Obj [])"
  by (simp add: testDoubles_def)

theorem keyless_reference_fails_witness:
  "JSON_parse testDoubles ''{}'' = Inr (Obj []) \<and> map_of ([] :: (string \<times> jsval) list) ''file'' = None
   \<and> result (projr (fst (sendDataInternal testDoubles ''{}'' ''m1'' customerMatchConfig fresh))) = False
   \<and> length (errors (projr (fst (sendDataInternal testDoubles ''{}'' ''m1'' customerMatchConfig fresh)))) = 1
   \<and> calls (snd (sendDataInternal testDoubles ''{}'' ''m1'' customerMatchConfig fresh)) = []"
proof -
  have none: "map_of ([] :: (string \<times> jsval) list) ''file'' = None" by simp
  show ?thesis
    using keyless_reference_fails [OF parse_empty_object none, of "''m1''" customerMatchConfig fresh]
    by (simp add: parse_empty_object fresh_def)
qed

text \<open>
  C6: the error message of the failed result for a message that parses as a JSON object
  without \<^verbatim>\<open>file\<close>, evaluated for the message \<^verbatim>\<open>{}\<close>. The text reads
  \<^verbatim>\<open>Could find GCS infomation in message: {}\<close>; the word \<^verbatim>\<open>not\<close> does not occur in it.
\<close>

theorem keyless_reference_text:
  "fst (sendDataInternal testDoubles ''{}'' ''m1'' customerMatchConfig fresh) =
     Inr \<lparr>result = False, errors = [''Could find GCS infomation in message: {}'']\<rparr>
   \<and> \<not> occursIn ''not'' ''Could find GCS infomation in message: {}''"
proof -
  have "resolveRecords testDoubles ''{}'' fresh =
    (Inr (Return \<lparr>result = False, errors = [''Could find GCS infomation in message: '' @ ''{}'']\<rparr>),
     fresh\<lparr>logs := logs fresh @ [LogError ''Could find GCS infomation in message'' (LStr ''{}'')]\<rparr>)"
    by (rule resolveRecords_no_file [OF parse_empty_object]) simp
  then have "fst (sendDataInternal testDoubles ''{}'' ''m1'' customerMatchConfig fresh) =
     Inr \<lparr>result = False, errors = [''Could find GCS infomation in message: {}'']\<rparr>"
    by (simp add: sendDataInternal_def bind_def return_def)
  moreover have "\<not> occursIn ''not'' ''Could find GCS infomation in message: {}''"
    by (simp add: startsWith_def)
  ultimately show ?thesis by simp
qed

lemma parse_referenceMessage:
  "JSON_parse testDoubles referenceMessage = Inr (Obj [(''bucket'', Str ''b''), (''file'', Str ''f'')])"
  by (simp add: testDoubles_def referenceMessage_def)

lemma resolve_referenceMessage:
  "resolveRecords testDoubles referenceMessage fresh =
     (Inr (Continue referenceMessage),
      \<lparr>calls = [LoadContent (Str ''b'') (Str ''f'')],
       logs = [LogError ''Incoming message: '' (LStr referenceMessage)]\<rparr>)"
  by (simp add: resolveRecords_def parse_referenceMessage testDoubles_answers prog_defs fresh_def)

lemma partitioner_referenceMessage: "partitioner (Suc 0) referenceMessage = [[referenceMessage]]"
proof -
  have "recordsOf referenceMessage = [referenceMessage]"
    by (simp add: recordsOf_def referenceMessage_def newline_def)
  then show ?thesis
    by (simp add: partitioner_def batchesOf_step batchesOf_Nil)
qed

lemma testDoubles_send:
  "addOperationsToOfflineUserDataJob testDoubles c j =
     (\<lambda>batch. if batch = [''bad''] then SendFailed [''refused''] else Sent)"
  by (simp add: testDoubles_def)

lemma tryOutcome_testDoubles:
  "tryOutcome testDoubles records customerMatchConfig =
     (Inr (aggregator (outcomesFrom
        (\<lambda>batch. if batch = [''bad''] then SendFailed [''refused''] else Sent) 0
        (partitioner (Suc 0) records))),
      GetOrCreateUserList \<lparr>type = ''CUSTOMER_MATCH_USER_LIST'', list_id = None\<rparr> #
      CreateOfflineUserDataJob \<lparr>type = ''CUSTOMER_MATCH_USER_LIST'', list_id = Some ''list-1''\<rparr> #
      map (AddOperationsToOfflineUserDataJob
             \<lparr>type = ''CUSTOMER_MATCH_USER_LIST'', list_id = Some ''list-1''\<rparr> ''job-1'')
        (partitioner (Suc 0) records)
      @ [RunOfflineUserDataJob
           \<lparr>type = ''CUSTOMER_MATCH_USER_LIST'', list_id = Some ''list-1''\<rparr> ''job-1''])"
  by (simp add: tryOutcome_def jobOutcome_def startsWith_def speed_customerMatchConfig
      testDoubles_answers(1-3) testDoubles_send customerMatchConfig_job)

text \<open>
  C1: the upload evaluated for a message that names a bucket and an object whose fetch
  throws. The exception is caught by the first \<^verbatim>\<open>try\<close> statement, the text of the message
  becomes the record stream, and the upload creates the list and the job, sends the message
  text as one record, runs the job and returns a successful result.
\<close>

theorem fetch_failure_sends_message:
  "loadContent testDoubles (Str ''b'') (Str ''f'') = Inl (Error ''No such object'')
   \<and> fst (sendDataInternal testDoubles referenceMessage ''m1'' customerMatchConfig fresh) =
       Inr \<lparr>result = True, errors = []\<rparr>
   \<and> calls (snd (sendDataInternal testDoubles referenceMessage ''m1'' customerMatchConfig fresh)) =
      [LoadContent (Str ''b'') (Str ''f''),
       GetOrCreateUserList \<lparr>type = ''CUSTOMER_MATCH_USER_LIST'', list_id = None\<rparr>,
       CreateOfflineUserDataJob \<lparr>type = ''CUSTOMER_MATCH_USER_LIST'', list_id = Some ''list-1''\<rparr>,
       AddOperationsToOfflineUserDataJob
         \<lparr>type = ''CUSTOMER_MATCH_USER_LIST'', list_id = Some ''list-1''\<rparr> ''job-1''
         [referenceMessage],
       RunOfflineUserDataJob
         \<lparr>type = ''CUSTOMER_MATCH_USER_LIST'', list_id = Some ''list-1''\<rparr> ''job-1'']"
proof -
  have single: "referenceMessage \<noteq> ''bad''"
    by (simp add: referenceMessage_def)
  show ?thesis
    using uploadJob_outcome [of testDoubles referenceMessage "''m1''" customerMatchConfig
        "\<lparr>calls = [LoadContent (Str ''b'') (Str ''f'')],
          logs = [LogError ''Incoming message: '' (LStr referenceMessage)]\<rparr>"]
    by (simp add: sendDataInternal_continue [OF resolve_referenceMessage] tryOutcome_testDoubles
        partitioner_referenceMessage testDoubles_answers aggregator_def outcomeOf_def single)
qed


lemma speed_storeSalesConfig:
  "recordsPerRequest (getSpeedOptions testDoubles storeSalesConfig) = 100000"
  by (simp add: getSpeedOptions_def testDoubles_def storeSalesConfig_def properValue_def
      RECORDS_PER_REQUEST_def)

lemma storeSalesConfig_job:
  "offlineUserDataJobConfig storeSalesConfig =
     \<lparr>type = ''STORE_SALES_UPLOAD_FIRST_PARTY'', list_id = None\<rparr>"
  by (simp add: storeSalesConfig_def)

lemma partitioner_whole_referenceMessage:
  "partitioner 100000 referenceMessage = [[referenceMessage]]"
proof -
  have "recordsOf referenceMessage = [referenceMessage]"
    by (simp add: recordsOf_def referenceMessage_def newline_def)
  then show ?thesis
    by (simp add: partitioner_def batchesOf_step batchesOf_Nil)
qed

lemma tryOutcome_storeSales:
  "tryOutcome testDoubles referenceMessage storeSalesConfig =
     (Inr \<lparr>result = True, errors = []\<rparr>,
      [CreateOfflineUserDataJob \<lparr>type = ''STORE_SALES_UPLOAD_FIRST_PARTY'', list_id = None\<rparr>,
       AddOperationsToOfflineUserDataJob
         \<lparr>type = ''STORE_SALES_UPLOAD_FIRST_PARTY'', list_id = None\<rparr> ''job-1''
         [referenceMessage],
       RunOfflineUserDataJob
         \<lparr>type = ''STORE_SALES_UPLOAD_FIRST_PARTY'', list_id = None\<rparr> ''job-1''])"
proof -
  have single: "referenceMessage \<noteq> ''bad''"
    by (simp add: referenceMessage_def)
  show ?thesis
    by (simp add: tryOutcome_def jobOutcome_def startsWith_def speed_storeSalesConfig
        testDoubles_answers(1-3) testDoubles_send storeSalesConfig_job
        partitioner_whole_referenceMessage aggregator_def outcomeOf_def single)
qed

text \<open>
  C4: the upload evaluated where a step of the source resolution throws: the message names
  a bucket and an object, the fetch of the object throws \<^verbatim>\<open>No such object\<close>, and the job
  type needs no list. \<^verbatim>\<open>getResultFromError\<close> would make of this exception a failed result
  with that one message. The upload returns instead a successful result without errors:
  the first \<^verbatim>\<open>try\<close> statement has caught the exception, and the job was created, fed with
  the text of the message and run.
\<close>

theorem fetch_exception_not_converted:
  "loadContent testDoubles (Str ''b'') (Str ''f'') = Inl (Error ''No such object'')
   \<and> getResultFromError testDoubles (Error ''No such object'') =
       \<lparr>result = False, errors = [''No such object'']\<rparr>
   \<and> fst (sendDataInternal testDoubles referenceMessage ''m2'' storeSalesConfig fresh) =
       Inr \<lparr>result = True, errors = []\<rparr>
   \<and> calls (snd (sendDataInternal testDoubles referenceMessage ''m2'' storeSalesConfig fresh)) =
      [LoadContent (Str ''b'') (Str ''f''),
       CreateOfflineUserDataJob \<lparr>type = ''STORE_SALES_UPLOAD_FIRST_PARTY'', list_id = None\<rparr>,
       AddOperationsToOfflineUserDataJob
         \<lparr>type = ''STORE_SALES_UPLOAD_FIRST_PARTY'', list_id = None\<rparr> ''job-1''
         [referenceMessage],
       RunOfflineUserDataJob
         \<lparr>type = ''STORE_SALES_UPLOAD_FIRST_PARTY'', list_id = None\<rparr> ''job-1'']"
proof -
  have run: "sendDataInternal testDoubles referenceMessage ''m2'' storeSalesConfig fresh =
      uploadJob testDoubles referenceMessage ''m2'' storeSalesConfig
        \<lparr>calls = [LoadContent (Str ''b'') (Str ''f'')],
         logs = [LogError ''Incoming message: '' (LStr referenceMessage)]\<rparr>"
    using resolve_referenceMessage by (rule sendDataInternal_continue)
  show ?thesis
    using uploadJob_outcome [of testDoubles referenceMessage "''m2''" storeSalesConfig
        "\<lparr>calls = [LoadContent (Str ''b'') (Str ''f'')],
          logs = [LogError ''Incoming message: '' (LStr referenceMessage)]\<rparr>"]
    by (simp add: run tryOutcome_storeSales testDoubles_answers resultFromError_def)
qed

text \<open>
  C5: for every configuration, whatever further fields it carries, the speed options have
  \<^verbatim>\<open>numberOfThreads = 1\<close>. \<^verbatim>\<open>recordsPerRequest\<close> is what \<^verbatim>\<open>getProperValue\<close> makes of
  the configured value with default 100000, and \<^verbatim>\<open>qps\<close> what it makes of the configured
  value with default 1; so where \<^verbatim>\<open>getProperValue\<close> falls back to its default, because the
  value supplied is not a proper one, they are 100000 and 1.
\<close>

theorem speed_options:
  "numberOfThreads (getSpeedOptions D config) = 1
   \<and> recordsPerRequest (getSpeedOptions D config) =
       getProperValue D (GoogleAdsOfflineUserDataJobConfig.recordsPerRequest config) 100000 None
   \<and> qps (getSpeedOptions D config) =
       getProperValue D (GoogleAdsOfflineUserDataJobConfig.qps config) 1 (Some False)
   \<and> ((\<forall>d c. getProperValue D (GoogleAdsOfflineUserDataJobConfig.recordsPerRequest config) d c = d)
        \<longrightarrow> recordsPerRequest (getSpeedOptions D config) = 100000)
   \<and> ((\<forall>d c. getProperValue D (GoogleAdsOfflineUserDataJobConfig.qps config) d c = d)
        \<longrightarrow> qps (getSpeedOptions D config) = 1)"
  by (simp add: getSpeedOptions_def RECORDS_PER_REQUEST_def NUMBER_OF_THREADS_def
      QUERIES_PER_SECOND_def)

theorem speed_options_witness:
  "(\<forall>d c. getProperValue testDoubles
        (GoogleAdsOfflineUserDataJobConfig.recordsPerRequest improperConfig) d c = d)
   \<and> (\<forall>d c. getProperValue testDoubles
        (GoogleAdsOfflineUserDataJobConfig.qps improperConfig) d c = d)
   \<and> getSpeedOptions testDoubles improperConfig =
       \<lparr>recordsPerRequest = 100000, numberOfThreads = 1, qps = 1\<rparr>"
proof -
  have records: "\<forall>d c. getProperValue testDoubles
        (GoogleAdsOfflineUserDataJobConfig.recordsPerRequest improperConfig) d c = d"
    by (simp add: testDoubles_def improperConfig_def properValue_def)
  have rate: "\<forall>d c. getProperValue testDoubles
        (GoogleAdsOfflineUserDataJobConfig.qps improperConfig) d c = d"
    by (simp add: testDoubles_def improperConfig_def properValue_def)
  have "getSpeedOptions testDoubles improperConfig =
       \<lparr>recordsPerRequest = 100000, numberOfThreads = 1, qps = 1\<rparr>"
    using speed_options [of testDoubles improperConfig] records rate by simp
  with records rate show ?thesis by blast
qed

lemma managedSend_uploadConversionAdjustment:
  "managedSend options (getUploadConversionAdjustmentFn D cid lcid ads) records messageId w =
     (if recordsPerRequest options \<le> 0
      then (Inl (Error ''recordsPerRequest must be positive''), w)
      else (Inr (aggregator (outcomesFrom (uploadConversionAdjustment D cid lcid ads) 0
                   (partitioner (nat (recordsPerRequest options)) records))),
            w\<lparr>calls := calls w @ map (UploadConversionAdjustment cid lcid ads)
                   (partitioner (nat (recordsPerRequest options)) records)\<rparr>))"
  by (simp add: getUploadConversionAdjustmentFn_def managedSend_remote)

text \<open>
  C7: the conversion adjustment upload is the managed send applied to the configured
  upload function, the records and the message id: it returns what the managed send
  returns and leaves the state the managed send leaves. Its calls are the batch sends of
  the managed send, one per batch, and nothing before or after them.
\<close>

theorem adjustment_upload_is_managed_send:
  "GoogleAdsConversionAdjustment_sendDataInternal inherited D records messageId config w =
     managedSend (inherited config)
       (getUploadConversionAdjustmentFn D (customerId config) (loginCustomerId config)
          (adsConfig config))
       records messageId w
   \<and> calls (snd (GoogleAdsConversionAdjustment_sendDataInternal inherited D records messageId
        config w)) =
     calls w @
     (if recordsPerRequest (inherited config) \<le> 0 then []
      else map (UploadConversionAdjustment (customerId config) (loginCustomerId config)
                  (adsConfig config))
             (partitioner (nat (recordsPerRequest (inherited config))) records))"
  by (simp add: GoogleAdsConversionAdjustment_sendDataInternal_def getManagedSendFn_def
      managedSend_uploadConversionAdjustment)

section \<open>The Cloud Functions handler\<close>

lemmas script_defs = super_get_def this_mutate_def console_error_def getFunction_def

lemma get_prop_throws: "get_prop v k = Inl e \<Longrightarrow> e = TypeError"
  by (cases v) auto

lemma get_prop_nullish: "get_prop v k = Inl e \<Longrightarrow> get_prop v k' = Inl TypeError"
  by (cases v) auto

text \<open>
  C9: when the get-function request answers with a response, \<^verbatim>\<open>exist\<close> returns true if
  the response carries a name, returns false if it carries no name but an error with code
  404, and throws for every other response: a \<^verbatim>\<open>TypeError\<close> from reading the response,
  or the error \<^verbatim>\<open>Unknown status of Cloud Functions\<close> followed by the function name.
\<close>

theorem exist_by_response:
  assumes "get A (''projects/'' @ projectId this @ ''/locations/'' @ locationId this
      @ ''/functions/'' @ functionName) = Inr response"
  shows "if carriesName response then fst (exist this A functionName s) = Inr True
     else if carriesError404 response then fst (exist this A functionName s) = Inr False
     else fst (exist this A functionName s) = Inl TypeError
        \<or> fst (exist this A functionName s) =
            Inl (Error (''Unknown status of Cloud Functions '' @ functionName))"
  using assms
  by (auto simp add: exist_def script_defs prog_defs carriesName_def carriesError404_def
      split: sum.splits dest: get_prop_throws get_prop_nullish [where k' = "''error''"])

lemma testApi_get:
  "get testApi ''projects/p/locations/l/functions/f'' =
     Inr (Obj [(''name'', Str ''projects/p/locations/l/functions/f'')])"
  "get testApi ''projects/p/locations/l/functions/g'' =
     Inr (Obj [(''error'', Obj [(''code'', Num 404)])])"
  "get testApi ''projects/p/locations/l/functions/h'' =
     Inr (Obj [(''error'', Obj [(''code'', Num 500)])])"
  by (simp_all add: testApi_def)

lemma testApi_getFunction:
  "get testApi (''projects/'' @ projectId (CloudFunctions ''p'' ''l'') @ ''/locations/''
     @ locationId (CloudFunctions ''p'' ''l'') @ ''/functions/'' @ ''f'') =
     Inr (Obj [(''name'', Str ''projects/p/locations/l/functions/f'')])"
  "get testApi (''projects/'' @ projectId (CloudFunctions ''p'' ''l'') @ ''/locations/''
     @ locationId (CloudFunctions ''p'' ''l'') @ ''/functions/'' @ ''g'') =
     Inr (Obj [(''error'', Obj [(''code'', Num 404)])])"
  "get testApi (''projects/'' @ projectId (CloudFunctions ''p'' ''l'') @ ''/locations/''
     @ locationId (CloudFunctions ''p'' ''l'') @ ''/functions/'' @ ''h'') =
     Inr (Obj [(''error'', Obj [(''code'', Num 500)])])"
  by (simp_all add: testApi_def CloudFunctions_def)

theorem exist_by_response_witness:
  "get testApi ''projects/p/locations/l/functions/f'' =
     Inr (Obj [(''name'', Str ''projects/p/locations/l/functions/f'')])
   \<and> fst (exist (CloudFunctions ''p'' ''l'') testApi ''f'' newScript) = Inr True
   \<and> get testApi ''projects/p/locations/l/functions/g'' =
     Inr (Obj [(''error'', Obj [(''code'', Num 404)])])
   \<and> fst (exist (CloudFunctions ''p'' ''l'') testApi ''g'' newScript) = Inr False
   \<and> get testApi ''projects/p/locations/l/functions/h'' =
     Inr (Obj [(''error'', Obj [(''code'', Num 500)])])
   \<and> fst (exist (CloudFunctions ''p'' ''l'') testApi ''h'' newScript) =
       Inl (Error ''Unknown status of Cloud Functions h'')"
proof -
  have found: "fst (exist (CloudFunctions ''p'' ''l'') testApi ''f'' newScript) = Inr True"
    using exist_by_response [OF testApi_getFunction(1), of newScript]
    by (simp add: carriesName_def)
  have missing: "fst (exist (CloudFunctions ''p'' ''l'') testApi ''g'' newScript) = Inr False"
    using exist_by_response [OF testApi_getFunction(2), of newScript]
    by (simp add: carriesName_def carriesError404_def)
  have unknown: "fst (exist (CloudFunctions ''p'' ''l'') testApi ''h'' newScript) =
       Inl (Error ''Unknown status of Cloud Functions h'')"
    by (simp add: exist_def script_defs prog_defs testApi_def CloudFunctions_def)
  show ?thesis
    using found missing unknown by (simp add: testApi_get)
qed

text \<open>
  C10: when \<^verbatim>\<open>exist\<close> answers that the function exists, \<^verbatim>\<open>createOrUpdate\<close> sends one
  \<^verbatim>\<open>PATCH\<close> request to the path of the function with the payload as it was given, and
  leaves the payload unchanged. When the function does not exist, it first sets the
  \<^verbatim>\<open>name\<close> property of the payload to the fully qualified path of the function and then
  sends the create request with that payload. Either way the result is the \<^verbatim>\<open>name\<close>
  property of the operation that the request returns.
\<close>

theorem createOrUpdate_by_existence:
  assumes "exist this A functionsName s = (Inr found, s1)"
  shows "createOrUpdate this A functionsName payload s =
    (if found then
       ((case mutate A (''projects/'' @ projectId this @ ''/locations/'' @ locationId this
                 @ ''/functions/'' @ functionsName) (Obj payload) (Some ''PATCH'') of
           Inl e \<Rightarrow> Inl e
         | Inr operation \<Rightarrow> get_prop operation ''name''),
        payload,
        s1\<lparr>requests := requests s1 @
          [Mutate (''projects/'' @ projectId this @ ''/locations/'' @ locationId this
             @ ''/functions/'' @ functionsName) (Obj payload) (Some ''PATCH'')]\<rparr>)
     else
       ((case mutate A (''projects/'' @ projectId this @ ''/locations/'' @ locationId this
                 @ ''/functions'')
               (Obj (AList.update ''name''
                  (Str (''projects/'' @ projectId this @ ''/locations/'' @ locationId this
                     @ ''/functions/'' @ functionsName)) payload)) None of
           Inl e \<Rightarrow> Inl e
         | Inr operation \<Rightarrow> get_prop operation ''name''),
        AList.update ''name''
          (Str (''projects/'' @ projectId this @ ''/locations/'' @ locationId this
             @ ''/functions/'' @ functionsName)) payload,
        s1\<lparr>requests := requests s1 @
          [Mutate (''projects/'' @ projectId this @ ''/locations/'' @ locationId this
             @ ''/functions'')
             (Obj (AList.update ''name''
                (Str (''projects/'' @ projectId this @ ''/locations/'' @ locationId this
                   @ ''/functions/'' @ functionsName)) payload)) None]\<rparr>))"
  using assms
  by (simp add: createOrUpdate_def updateFunction_def createFunction_def this_mutate_def Let_def
      split: sum.splits)

lemma exist_f:
  "exist (CloudFunctions ''p'' ''l'') testApi ''f'' newScript =
     (Inr True, \<lparr>requests = [Get ''projects/p/locations/l/functions/f''], console = []\<rparr>)"
  by (simp add: exist_def script_defs prog_defs testApi_def CloudFunctions_def newScript_def)

lemma exist_g:
  "exist (CloudFunctions ''p'' ''l'') testApi ''g'' newScript =
     (Inr False, \<lparr>requests = [Get ''projects/p/locations/l/functions/g''], console = []\<rparr>)"
  by (simp add: exist_def script_defs prog_defs testApi_def CloudFunctions_def newScript_def)

lemma testApi_mutate:
  "mutate testApi path payload method = Inr (Obj [(''name'', Str ''operations/op-1'')])"
  by (simp add: testApi_def)

theorem createOrUpdate_by_existence_witness:
  "exist (CloudFunctions ''p'' ''l'') testApi ''f'' newScript =
     (Inr True, \<lparr>requests = [Get ''projects/p/locations/l/functions/f''], console = []\<rparr>)
   \<and> createOrUpdate (CloudFunctions ''p'' ''l'') testApi ''f'' [(''runtime'', Str ''nodejs'')] newScript =
     (Inr (Str ''operations/op-1''),
      [(''runtime'', Str ''nodejs'')],
      \<lparr>requests = [Get ''projects/p/locations/l/functions/f'',
         Mutate ''projects/p/locations/l/functions/f'' (Obj [(''runtime'', Str ''nodejs'')])
           (Some ''PATCH'')],
       console = []\<rparr>)
   \<and> exist (CloudFunctions ''p'' ''l'') testApi ''g'' newScript =
     (Inr False, \<lparr>requests = [Get ''projects/p/locations/l/functions/g''], console = []\<rparr>)
   \<and> createOrUpdate (CloudFunctions ''p'' ''l'') testApi ''g'' [(''runtime'', Str ''nodejs'')] newScript =
     (Inr (Str ''operations/op-1''),
      [(''runtime'', Str ''nodejs''), (''name'', Str ''projects/p/locations/l/functions/g'')],
      \<lparr>requests = [Get ''projects/p/locations/l/functions/g'',
         Mutate ''projects/p/locations/l/functions''
           (Obj [(''runtime'', Str ''nodejs''),
                 (''name'', Str ''projects/p/locations/l/functions/g'')]) None],
       console = []\<rparr>)"
proof -
  have updated: "createOrUpdate (CloudFunctions ''p'' ''l'') testApi ''f'' [(''runtime'', Str ''nodejs'')] newScript =
     (Inr (Str ''operations/op-1''),
      [(''runtime'', Str ''nodejs'')],
      \<lparr>requests = [Get ''projects/p/locations/l/functions/f'',
         Mutate ''projects/p/locations/l/functions/f'' (Obj [(''runtime'', Str ''nodejs'')])
           (Some ''PATCH'')],
       console = []\<rparr>)"
    using createOrUpdate_by_existence [OF exist_f, of "[(''runtime'', Str ''nodejs'')]"]
    by (simp add: testApi_mutate CloudFunctions_def)
  have created: "createOrUpdate (CloudFunctions ''p'' ''l'') testApi ''g'' [(''runtime'', Str ''nodejs'')] newScript =
     (Inr (Str ''operations/op-1''),
      [(''runtime'', Str ''nodejs''), (''name'', Str ''projects/p/locations/l/functions/g'')],
      \<lparr>requests = [Get ''projects/p/locations/l/functions/g'',
         Mutate ''projects/p/locations/l/functions''
           (Obj [(''runtime'', Str ''nodejs''),
                 (''name'', Str ''projects/p/locations/l/functions/g'')]) None],
       console = []\<rparr>)"
    using createOrUpdate_by_existence [OF exist_g, of "[(''runtime'', Str ''nodejs'')]"]
    by (simp add: testApi_mutate CloudFunctions_def)
  show ?thesis
    using updated created exist_f exist_g by simp
qed

end
